theory Spec2Isabelle
  imports Complex_Main "HOL-Library.Multiset"
begin

section \<open>Errors and numbers\<close>

text \<open>
  The Python exceptions that the modelled functions of \<^verbatim>\<open>map_generation.py\<close> can raise.
  A function that may raise returns \<open>error + 'a\<close>, with \<open>Inl\<close> for the exception.

  Numbers: the catalog loader reads resources and influence with \<^verbatim>\<open>int(...)\<close>, so the
  fields of a tile and of a slice are Python integers (\<open>int\<close>). The \<^verbatim>\<open>Planet\<close> dataclass
  declares floats and divides by two; its fields are rationals here. The comparisons against
  \<^verbatim>\<open>1.5 * x\<close> and the key \<^verbatim>\<open>resources / influence\<close> are computed in \<open>rat\<close>: for the
  values of a tile catalog the float product of 1.5 and an integer and the doubling and
  halving of a float are exact, and the quotients of two integers round to floats in the
  same order.
\<close>

datatype error = NotImplementedError | IndexError | ValueError | AttributeError | ZeroDivisionError

section \<open>Planet\<close>

record planet =
  name :: string
  resources :: rat
  influence :: rat
  technology :: string
  type_ :: string

text \<open>\<^verbatim>\<open>Planet.__post_init__\<close>: an \<^verbatim>\<open>if / elif / else\<close> chain over the raw fields.\<close>

definition Planet_post_init :: "planet \<Rightarrow> planet" where
  "Planet_post_init self =
     (if resources self \<ge> 2 * influence self then self\<lparr>influence := 0\<rparr>
      else if influence self \<ge> 2 * resources self then self\<lparr>resources := 0\<rparr>
      else (let self1 = self\<lparr>resources := resources self / 2\<rparr>
            in self1\<lparr>influence := influence self1 / 2\<rparr>))"

definition Planet :: "string \<Rightarrow> rat \<Rightarrow> rat \<Rightarrow> string \<Rightarrow> string \<Rightarrow> planet" where
  "Planet n r i t ty =
     Planet_post_init \<lparr>name = n, resources = r, influence = i, technology = t, type_ = ty\<rparr>"

section \<open>Tile\<close>

text \<open>
  The planets of a tile are the rows of the planet table (dictionaries read with
  \<^verbatim>\<open>planet['resources']\<close>, \<^verbatim>\<open>planet['influence']\<close>, \<^verbatim>\<open>planet['technology']\<close>),
  not \<^verbatim>\<open>Planet\<close> objects.
\<close>

record planet_row =
  row_name :: string
  row_resources :: int
  row_influence :: int
  row_technology :: string
  row_type :: string

record tile =
  id_ :: int
  color :: string
  planets :: "planet_row list"
  anomalies :: "string list option"
  tile_resources :: int
  tile_influence :: int
  tile_technology :: string
  tile_type_ :: string
  tile_wormholes :: string
  tile_absolute_value :: int

text \<open>The loop over \<^verbatim>\<open>self.planets\<close>, with the three accumulators.\<close>

fun sum_planets :: "planet_row list \<Rightarrow> int \<times> int \<times> string \<Rightarrow> int \<times> int \<times> string" where
  "sum_planets [] acc = acc"
| "sum_planets (p # ps) (r, i, t) =
     sum_planets ps (r + row_resources p, i + row_influence p, t @ row_technology p)"

definition startswith :: "string \<Rightarrow> string \<Rightarrow> bool" where
  "startswith s pre = (take (length pre) s = pre)"

text \<open>The loop over \<^verbatim>\<open>self.anomalies\<close>; \<^verbatim>\<open>anomaly[-1]\<close> is the last character.\<close>

fun collect_wormholes :: "string list \<Rightarrow> string \<Rightarrow> string" where
  "collect_wormholes [] w = w"
| "collect_wormholes (a # as) w =
     collect_wormholes as (if startswith a ''Wormhole'' then w @ [last a] else w)"

text \<open>
  \<^verbatim>\<open>Tile.__post_init__\<close>. \<^verbatim>\<open>if self.anomalies\<close> skips \<^verbatim>\<open>None\<close> and the empty list;
  \<^verbatim>\<open>len(set(w))\<close> is the number of distinct characters.
\<close>

definition Tile :: "int \<Rightarrow> string \<Rightarrow> planet_row list \<Rightarrow> string list option \<Rightarrow> tile" where
  "Tile i c ps an =
     (let (r, infl, tech) = sum_planets ps (0, 0, []);
          w = (case an of None \<Rightarrow> [] | Some as \<Rightarrow> if as = [] then [] else collect_wormholes as []);
          av = 0 + r + infl + 2 * int (length tech);
          av' = (if w \<noteq> []
                 then (if int (length w) - int (card (set w)) = 0 then av + 1 else av)
                 else av)
      in \<lparr>id_ = i, color = c, planets = ps, anomalies = an,
          tile_resources = r, tile_influence = infl, tile_technology = tech,
          tile_type_ = [], tile_wormholes = w, tile_absolute_value = av'\<rparr>)"

section \<open>Slice\<close>

record slice =
  tiles :: "tile list"
  slice_resources :: int
  slice_influence :: int
  slice_technology :: string
  slice_wormholes :: string
  slice_absolute_value :: int

text \<open>\<^verbatim>\<open>Slice.update_values\<close>: reset the five aggregates, then add every member tile.\<close>

fun update_loop :: "tile list \<Rightarrow> slice \<Rightarrow> slice" where
  "update_loop [] self = self"
| "update_loop (t # ts) self =
     update_loop ts
       (self\<lparr>slice_resources := slice_resources self + tile_resources t,
             slice_influence := slice_influence self + tile_influence t,
             slice_technology := slice_technology self @ tile_technology t,
             slice_wormholes := slice_wormholes self @ tile_wormholes t,
             slice_absolute_value := slice_absolute_value self + tile_absolute_value t\<rparr>)"

definition update_values :: "slice \<Rightarrow> slice" where
  "update_values self =
     update_loop (tiles self)
       (self\<lparr>slice_resources := 0, slice_influence := 0, slice_absolute_value := 0,
             slice_technology := [], slice_wormholes := []\<rparr>)"

definition Slice :: "tile list \<Rightarrow> slice" where
  "Slice ts =
     update_values \<lparr>tiles = ts, slice_resources = 0, slice_influence = 0,
                    slice_technology = [], slice_wormholes = [], slice_absolute_value = 0\<rparr>"


text \<open>
  \<^verbatim>\<open>list.sort\<close> is a stable sort; with \<^verbatim>\<open>reverse=True\<close> CPython reverses the list,
  sorts it stably in ascending order and reverses it again, so that equal elements keep
  their original order.
\<close>

definition sort_desc :: "('a \<Rightarrow> int) \<Rightarrow> 'a list \<Rightarrow> 'a list" where
  "sort_desc f xs = rev (sort_key f (rev xs))"

text \<open>
  The \<^verbatim>\<open>for idx, tile in enumerate(self.tiles)\<close> loop of the two removal methods:
  pop the first tile of the colour, or fall off the end and return \<^verbatim>\<open>None\<close>.
\<close>

fun pop_first_color :: "string \<Rightarrow> tile list \<Rightarrow> tile option \<times> tile list" where
  "pop_first_color c [] = (None, [])"
| "pop_first_color c (t # ts) =
     (if color t = c then (Some t, ts)
      else (let (r, ts') = pop_first_color c ts in (r, t # ts')))"

text \<open>
  The three removal methods sort \<^verbatim>\<open>self.tiles\<close> in place and pop one tile. None of
  them calls \<^verbatim>\<open>update_values\<close>: the aggregates keep their previous values.
\<close>

definition remove_best_tile :: "slice \<Rightarrow> string \<Rightarrow> tile option \<times> slice" where
  "remove_best_tile self c =
     (let (r, ts) = pop_first_color c (sort_desc tile_absolute_value (tiles self))
      in (r, self\<lparr>tiles := ts\<rparr>))"

definition remove_worst_tile :: "slice \<Rightarrow> string \<Rightarrow> tile option \<times> slice" where
  "remove_worst_tile self c =
     (let (r, ts) = pop_first_color c (sort_key tile_absolute_value (tiles self))
      in (r, self\<lparr>tiles := ts\<rparr>))"

definition remove_excessive_tile :: "slice \<Rightarrow> error + (tile \<times> slice)" where
  "remove_excessive_tile self =
     (let comparator = (if slice_resources self > slice_influence self
                        then tile_resources else tile_influence)
      in case sort_desc comparator (tiles self) of
           [] \<Rightarrow> Inl IndexError
         | t # ts \<Rightarrow> Inr (t, self\<lparr>tiles := ts\<rparr>))"

text \<open>
  \<^verbatim>\<open>Slice.add\<close>. The argument is \<^verbatim>\<open>None\<close> when a removal found no tile; then
  \<^verbatim>\<open>update_values\<close> reads \<^verbatim>\<open>tile.resources\<close> of \<^verbatim>\<open>None\<close> and raises.
\<close>

definition add :: "slice \<Rightarrow> tile option \<Rightarrow> error + slice" where
  "add self t =
     (case t of
        None \<Rightarrow> Inl AttributeError
      | Some t' \<Rightarrow> Inr (update_values (self\<lparr>tiles := tiles self @ [t']\<rparr>)))"

section \<open>The random source\<close>

text \<open>
  All randomness comes from the process-wide source of Python's \<^verbatim>\<open>random\<close> module. Its
  state is modelled by the sequence of raw draws it has yet to deliver: \<open>randbelow n\<close> takes
  the next draw and reduces it below \<open>n\<close> (an exhausted sequence keeps delivering 0).
  \<^verbatim>\<open>random.shuffle\<close> is the library's loop
  \<^verbatim>\<open>for i in reversed(range(1, len(x))): j = randbelow(i + 1); x[i], x[j] = x[j], x[i]\<close>,
  and \<^verbatim>\<open>random.randint(a, b)\<close> is \<^verbatim>\<open>a + randbelow(b - a + 1)\<close>.
\<close>

type_synonym rng = "nat list"

definition randbelow :: "nat \<Rightarrow> rng \<Rightarrow> nat \<times> rng" where
  "randbelow n g = (case g of [] \<Rightarrow> (0, []) | x # g' \<Rightarrow> (x mod n, g'))"

fun shuffle_loop :: "nat \<Rightarrow> 'a list \<Rightarrow> rng \<Rightarrow> 'a list \<times> rng" where
  "shuffle_loop 0 xs g = (xs, g)"
| "shuffle_loop (Suc i) xs g =
     (let (j, g') = randbelow (Suc i + 1) g
      in shuffle_loop i (xs[Suc i := xs ! j, j := xs ! Suc i]) g')"

definition shuffle :: "'a list \<Rightarrow> rng \<Rightarrow> 'a list \<times> rng" where
  "shuffle xs g = shuffle_loop (length xs - 1) xs g"

definition randint :: "int \<Rightarrow> int \<Rightarrow> rng \<Rightarrow> error + (int \<times> rng)" where
  "randint a b g =
     (if b < a then Inl ValueError
      else (let (r, g') = randbelow (nat (b - a + 1)) g in Inr (a + int r, g')))"

section \<open>Drawing the pool and building the slices\<close>

text \<open>
  The \<^verbatim>\<open>while True\<close> loop of \<^verbatim>\<open>draw_all_tiles\<close>: pop the first tile; a red one goes
  back to the end of the list, any other one is dropped and ends the loop. Popping from an
  empty list raises; a list of red tiles only makes the loop run forever (\<open>None\<close>).
\<close>

partial_function (option) draw_loop :: "tile list \<Rightarrow> (error + tile list) option" where
  "draw_loop ts =
     (case ts of
        [] \<Rightarrow> Some (Inl IndexError)
      | t # ts' \<Rightarrow> if color t = ''red'' then draw_loop (ts' @ [t]) else Some (Inr ts'))"

declare draw_loop.simps [code]

definition draw_all_tiles :: "tile list \<Rightarrow> int \<Rightarrow> rng \<Rightarrow> (error + tile list \<times> rng) option" where
  "draw_all_tiles ts players g =
     (if players \<noteq> 6 then Some (Inl NotImplementedError)
      else (let (ts1, g1) = shuffle ts g
            in case draw_loop ts1 of
                 None \<Rightarrow> None
               | Some (Inl e) \<Rightarrow> Some (Inl e)
               | Some (Inr ts2) \<Rightarrow> Some (Inr (ts2, g1))))"

text \<open>\<^verbatim>\<open>for j in range(n): slice_tiles.append(src.pop(0))\<close>\<close>

fun pop_n :: "nat \<Rightarrow> 'a list \<Rightarrow> 'a list \<Rightarrow> error + ('a list \<times> 'a list)" where
  "pop_n 0 src acc = Inr (acc, src)"
| "pop_n (Suc n) src acc =
     (case src of [] \<Rightarrow> Inl IndexError | x # src' \<Rightarrow> pop_n n src' (acc @ [x]))"

text \<open>\<^verbatim>\<open>for i in range(k)\<close>: two red tiles, then three blue tiles, then the new slice.\<close>

fun slices_loop :: "nat \<Rightarrow> tile list \<Rightarrow> tile list \<Rightarrow> slice list \<Rightarrow> error + slice list" where
  "slices_loop 0 reds blues slices = Inr slices"
| "slices_loop (Suc n) reds blues slices =
     (case pop_n 2 reds [] of
        Inl e \<Rightarrow> Inl e
      | Inr (st, reds') \<Rightarrow>
          (case pop_n 3 blues st of
             Inl e \<Rightarrow> Inl e
           | Inr (st', blues') \<Rightarrow> slices_loop n reds' blues' (slices @ [Slice st'])))"

definition generate_slices :: "tile list \<Rightarrow> int \<Rightarrow> rng \<Rightarrow> error + (slice list \<times> rng)" where
  "generate_slices ts k g =
     (if k \<noteq> 6 then Inl NotImplementedError
      else (let (red_tiles, g1) = shuffle (filter (\<lambda>t. color t = ''red'') ts) g;
                (blue_tiles, g2) = shuffle (filter (\<lambda>t. color t = ''blue'') ts) g1
            in case slices_loop (nat k) red_tiles blue_tiles [] of
                 Inl e \<Rightarrow> Inl e
               | Inr slices \<Rightarrow> Inr (slices, g2)))"

section \<open>Checking the balance\<close>







section \<open>Rebalancing\<close>

text \<open>
  \<^verbatim>\<open>rebalance_slices\<close> mutates the slices it reaches through \<^verbatim>\<open>slices[0]\<close> and
  \<^verbatim>\<open>slices[-1]\<close>. The slice objects are the entries of the list, so a mutation of
  \<^verbatim>\<open>worst_slice\<close> or \<^verbatim>\<open>best_slice\<close> is an update of the list at the first or the last
  index; on a list of one slice both names denote the same entry.

  The first half (the swap between the best and the worst slice) is \<open>rebalance_best_worst\<close>.
  \<^verbatim>\<open>best_tile.color\<close> raises when the best slice has no blue tile, and
  \<^verbatim>\<open>best_slice.add(worst_tile)\<close> raises when the worst slice has none.
\<close>

definition rebalance_best_worst :: "slice list \<Rightarrow> error + slice list" where
  "rebalance_best_worst slices0 =
     (let slices = sort_key slice_absolute_value slices0 in
      if slices = [] then Inl IndexError
      else
        (let w = 0; b = length slices - 1 in
         if (of_int (slice_absolute_value (slices ! b)) :: rat)
              \<ge> (3 / 2) * of_int (slice_absolute_value (slices ! w))
         then
           (let (best_tile, best1) = remove_best_tile (slices ! b) ''blue'';
                slices1 = slices[b := best1]
            in case best_tile of
                 None \<Rightarrow> Inl AttributeError
               | Some bt \<Rightarrow>
                   (let (worst_tile, worst1) = remove_worst_tile (slices1 ! w) (color bt);
                        slices2 = slices1[w := worst1]
                    in case add (slices2 ! b) worst_tile of
                         Inl e \<Rightarrow> Inl e
                       | Inr best2 \<Rightarrow>
                           (let slices3 = slices2[b := best2]
                            in case add (slices3 ! w) (Some bt) of
                                 Inl e \<Rightarrow> Inl e
                               | Inr worst2 \<Rightarrow> Inr (slices3[w := worst2]))))
         else Inr slices))"






section \<open>Placing the tiles of a slice\<close>

text \<open>\<^verbatim>\<open>list.insert(k, x)\<close> for an index inside the list.\<close>

definition insert_at :: "nat \<Rightarrow> 'a \<Rightarrow> 'a list \<Rightarrow> 'a list" where
  "insert_at k x xs = take k xs @ x # drop k xs"

text \<open>
  \<^verbatim>\<open>result[non_allocated.pop(0)] = tile\<close> for every tile of a colour, in order; popping
  from the empty list raises.
\<close>

fun place_loop :: "tile list \<Rightarrow> nat list \<Rightarrow> tile option list
    \<Rightarrow> error + (nat list \<times> tile option list)" where
  "place_loop [] non_allocated result = Inr (non_allocated, result)"
| "place_loop (t # ts) non_allocated result =
     (case non_allocated of
        [] \<Rightarrow> Inl IndexError
      | p # rest \<Rightarrow> place_loop ts rest (result[p := Some t]))"

definition has_anomalies :: "tile \<Rightarrow> bool" where
  "has_anomalies t = (case anomalies t of None \<Rightarrow> False | Some as \<Rightarrow> as \<noteq> [])"

text \<open>
  \<^verbatim>\<open>Slice.place_tiles\<close>. Slot 0 joins the candidate slots when the first blue tile is
  reached: at the front when more than one tile has anomalies, at a random index
  \<^verbatim>\<open>randint(0, len(non_allocated) - 1)\<close> otherwise. The result is the new value of
  \<^verbatim>\<open>self.tiles\<close>.
\<close>

definition place_tiles :: "slice \<Rightarrow> rng \<Rightarrow> error + (tile option list \<times> rng)" where
  "place_tiles self g =
     (let (ts, g1) = shuffle (tiles self) g;
          result = replicate 7 None;
          (non_allocated, g2) = shuffle [1, 3, 5, 6] g1;
          multiple_anomalies = (length (filter has_anomalies ts) > 1);
          blues = filter (\<lambda>t. color t = ''blue'') ts;
          reds = filter (\<lambda>t. color t = ''red'') ts
      in case (if blues = [] then Inr (non_allocated, g2)
               else if multiple_anomalies then Inr (insert_at 0 0 non_allocated, g2)
               else (case randint 0 (int (length non_allocated) - 1) g2 of
                       Inl e \<Rightarrow> Inl e
                     | Inr (k, g3) \<Rightarrow> Inr (insert_at (nat k) 0 non_allocated, g3))) of
           Inl e \<Rightarrow> Inl e
         | Inr (non_allocated1, g3) \<Rightarrow>
             (case place_loop blues non_allocated1 result of
                Inl e \<Rightarrow> Inl e
              | Inr (non_allocated2, result1) \<Rightarrow>
                  (case place_loop reds non_allocated2 result1 of
                     Inl e \<Rightarrow> Inl e
                   | Inr (non_allocated3, result2) \<Rightarrow> Inr (result2, g3))))"

section \<open>The pipeline\<close>






section \<open>Predicates of the properties and example data\<close>

text \<open>The aggregates of a slice are current: each equals the sum or concatenation over the member tiles.\<close>

definition aggregates_current :: "slice \<Rightarrow> bool" where
  "aggregates_current s =
     (slice_resources s = sum_list (map tile_resources (tiles s))
      \<and> slice_influence s = sum_list (map tile_influence (tiles s))
      \<and> slice_technology s = concat (map tile_technology (tiles s))
      \<and> slice_wormholes s = concat (map tile_wormholes (tiles s))
      \<and> slice_absolute_value s = sum_list (map tile_absolute_value (tiles s)))"

text \<open>The aggregates of \<open>s'\<close> are those of \<open>s\<close>.\<close>

definition same_aggregates :: "slice \<Rightarrow> slice \<Rightarrow> bool" where
  "same_aggregates s s' =
     (slice_resources s' = slice_resources s \<and> slice_influence s' = slice_influence s
      \<and> slice_technology s' = slice_technology s \<and> slice_wormholes s' = slice_wormholes s
      \<and> slice_absolute_value s' = slice_absolute_value s)"

text \<open>Example tiles: a blue tile with one planet, and a red tile without planets.\<close>

definition blue :: "int \<Rightarrow> int \<Rightarrow> int \<Rightarrow> tile" where
  "blue i r infl =
     Tile i ''blue'' [\<lparr>row_name = ''P'', row_resources = r, row_influence = infl,
                       row_technology = [], row_type = ''cultural''\<rparr>] None"

definition red :: "int \<Rightarrow> tile" where
  "red i = Tile i ''red'' [] None"



definition all_tiles :: "slice list \<Rightarrow> tile multiset" where
  "all_tiles slices = mset (concat (map tiles slices))"

text \<open>Example slices of two red and three blue tiles, with the absolute values 12 and 5.\<close>

definition strong_slice :: slice where
  "strong_slice = Slice [red 1, red 2, blue 3 3 3, blue 4 2 2, blue 5 1 1]"

definition weak_slice :: slice where
  "weak_slice = Slice [red 6, red 7, blue 8 1 1, blue 9 1 1, blue 10 1 0]"

text \<open>An example pool: the red tiles 1 to 12 and the blue tiles 13 to 30.\<close>

definition example_pool :: "tile list" where
  "example_pool = map red [1..12] @ map (\<lambda>i. blue i 2 2) [13..30]"

text \<open>The tiles that a placement holds, in slot order.\<close>

definition placed :: "tile option list \<Rightarrow> tile list" where
  "placed result = concat (map (\<lambda>x. case x of None \<Rightarrow> [] | Some t \<Rightarrow> [t]) result)"





section \<open>Properties of the value model\<close>

lemma sum_planets_eq:
  "sum_planets ps (r, i, t) =
     (r + sum_list (map row_resources ps), i + sum_list (map row_influence ps),
      t @ concat (map row_technology ps))"
  by (induction ps arbitrary: r i t) simp_all

lemma collect_wormholes_eq:
  "collect_wormholes as w = w @ map last (filter (\<lambda>a. startswith a ''Wormhole'') as)"
  by (induction as arbitrary: w) simp_all

lemma no_repeat_iff_distinct:
  "(int (length w) - int (card (set w)) = 0) = distinct w"
  using card_distinct [of w] distinct_card [of w] by auto


lemma wormhole_bonus:
  "(if w \<noteq> [] then (if int (length w) - int (card (set w)) = 0 then av + 1 else av) else av)
     = av + (if w \<noteq> [] \<and> distinct w then 1 else (0::int))"
  using no_repeat_iff_distinct [of w] by auto



text \<open>
  For raw values below zero both conditions can hold at once; the first rule of the chain
  applies.
\<close>

lemma Planet_negative_overlap:
  "resources (Planet ''X'' (- 1) (- 1) [] []) = - 1 \<and> influence (Planet ''X'' (- 1) (- 1) [] []) = 0"
  by (simp add: Planet_def Planet_post_init_def)

text \<open>
  C2. The absolute value of a constructed tile is its resources plus its influence plus
  twice the length of its technology string, plus one exactly when its wormholes string is
  not empty and has no repeated character; the wormholes string is the last character of
  every anomaly that starts with "Wormhole", in order; resources, influence and technology
  are the sums and the concatenation over the planets.
\<close>

theorem Tile_absolute_value:
  "tile_absolute_value (Tile i c ps an) =
     tile_resources (Tile i c ps an) + tile_influence (Tile i c ps an)
     + 2 * int (length (tile_technology (Tile i c ps an)))
     + (if tile_wormholes (Tile i c ps an) \<noteq> [] \<and> distinct (tile_wormholes (Tile i c ps an))
        then 1 else 0)
   \<and> tile_wormholes (Tile i c ps an) =
       map last (filter (\<lambda>a. startswith a ''Wormhole'') (case an of None \<Rightarrow> [] | Some as \<Rightarrow> as))
   \<and> tile_resources (Tile i c ps an) = sum_list (map row_resources ps)
   \<and> tile_influence (Tile i c ps an) = sum_list (map row_influence ps)
   \<and> tile_technology (Tile i c ps an) = concat (map row_technology ps)"
  unfolding Tile_def Let_def sum_planets_eq wormhole_bonus
  by (cases an) (simp_all add: collect_wormholes_eq)


theorem Tile_absolute_value_witness:
  "tile_absolute_value
     (Tile 25 ''blue'' [\<lparr>row_name = ''Quann'', row_resources = 2, row_influence = 1,
                         row_technology = [], row_type = ''cultural''\<rparr>]
        (Some [''Wormhole-B''])) = 4
   \<and> tile_absolute_value
     (Tile 90 ''blue'' [\<lparr>row_name = ''Twin'', row_resources = 1, row_influence = 1,
                         row_technology = ''G'', row_type = ''hazardous''\<rparr>]
        (Some [''Wormhole-A'', ''Asteroid Field'', ''Wormhole-A''])) = 4
   \<and> tile_wormholes (Tile 39 ''red'' [] (Some [''Wormhole-A'', ''Nebula'', ''Wormhole-B''])) = ''AB''
   \<and> tile_absolute_value (Tile 39 ''red'' [] (Some [''Wormhole-A'', ''Nebula'', ''Wormhole-B''])) = 1"
  using Tile_absolute_value [of 25 "''blue''" "[\<lparr>row_name = ''Quann'', row_resources = 2, row_influence = 1,
                         row_technology = [], row_type = ''cultural''\<rparr>]" "Some [''Wormhole-B'']"]
    Tile_absolute_value [of 90 "''blue''" "[\<lparr>row_name = ''Twin'', row_resources = 1, row_influence = 1,
                         row_technology = ''G'', row_type = ''hazardous''\<rparr>]"
        "Some [''Wormhole-A'', ''Asteroid Field'', ''Wormhole-A'']"]
    Tile_absolute_value [of 39 "''red''" "[]" "Some [''Wormhole-A'', ''Nebula'', ''Wormhole-B'']"]
  by (simp add: startswith_def)

section \<open>Example tiles\<close>

lemma blue_fields:
  "color (blue i r infl) = ''blue''" "tile_resources (blue i r infl) = r"
  "tile_influence (blue i r infl) = infl" "tile_absolute_value (blue i r infl) = r + infl"
  "tile_technology (blue i r infl) = []" "tile_wormholes (blue i r infl) = []"
  "anomalies (blue i r infl) = None"
  by (simp_all add: blue_def Tile_def)

lemma red_fields:
  "color (red i) = ''red''" "tile_resources (red i) = 0"
  "tile_influence (red i) = 0" "tile_absolute_value (red i) = 0"
  "tile_technology (red i) = []" "tile_wormholes (red i) = []"
  "anomalies (red i) = None"
  by (simp_all add: red_def Tile_def)

section \<open>Properties of the slice aggregates\<close>

lemma update_loop_fields:
  "tiles (update_loop ts s) = tiles s
   \<and> slice_resources (update_loop ts s) = slice_resources s + sum_list (map tile_resources ts)
   \<and> slice_influence (update_loop ts s) = slice_influence s + sum_list (map tile_influence ts)
   \<and> slice_technology (update_loop ts s) = slice_technology s @ concat (map tile_technology ts)
   \<and> slice_wormholes (update_loop ts s) = slice_wormholes s @ concat (map tile_wormholes ts)
   \<and> slice_absolute_value (update_loop ts s)
       = slice_absolute_value s + sum_list (map tile_absolute_value ts)"
  by (induction ts arbitrary: s) simp_all

lemma update_values_tiles [simp]: "tiles (update_values s) = tiles s"
  by (simp add: update_values_def update_loop_fields)

lemma update_values_current: "aggregates_current (update_values s)"
  by (simp add: aggregates_current_def update_values_def update_loop_fields)

lemma Slice_tiles [simp]: "tiles (Slice ts) = ts"
  by (simp add: Slice_def)

lemma Slice_current: "aggregates_current (Slice ts)"
  by (simp add: Slice_def update_values_current)

lemma Slice_fields:
  "slice_resources (Slice ts) = sum_list (map tile_resources ts)"
  "slice_influence (Slice ts) = sum_list (map tile_influence ts)"
  "slice_absolute_value (Slice ts) = sum_list (map tile_absolute_value ts)"
  using Slice_current [of ts] by (simp_all add: aggregates_current_def)

lemma example_slices:
  "tiles strong_slice = [red 1, red 2, blue 3 3 3, blue 4 2 2, blue 5 1 1]"
  "tiles weak_slice = [red 6, red 7, blue 8 1 1, blue 9 1 1, blue 10 1 0]"
  "slice_absolute_value strong_slice = 12" "slice_absolute_value weak_slice = 5"
  "slice_resources strong_slice = 6" "slice_influence strong_slice = 6"
  "slice_resources weak_slice = 3" "slice_influence weak_slice = 2"
  by (simp_all add: strong_slice_def weak_slice_def Slice_fields blue_fields red_fields)

lemma remove_best_same: "same_aggregates s (snd (remove_best_tile s c))"
  by (simp add: remove_best_tile_def same_aggregates_def split: prod.splits)

lemma remove_worst_same: "same_aggregates s (snd (remove_worst_tile s c))"
  by (simp add: remove_worst_tile_def same_aggregates_def split: prod.splits)

lemma remove_excessive_same:
  "remove_excessive_tile s = Inr (t, s') \<Longrightarrow> same_aggregates s s'"
  by (auto simp add: remove_excessive_tile_def same_aggregates_def Let_def split: list.splits)

text \<open>
  C3 (amended). The aggregates of a slice equal the sums and concatenations over its member
  tiles after the construction and after every \<open>add\<close>. The three removal methods do not
  recompute them: after a removal the aggregates are those from before the removal, and
  they become current again with the next \<open>add\<close>.
\<close>

theorem Slice_aggregates:
  "aggregates_current (Slice ts)
   \<and> (\<exists>s'. add s (Some t) = Inr s' \<and> tiles s' = tiles s @ [t] \<and> aggregates_current s')
   \<and> same_aggregates s (snd (remove_best_tile s c))
   \<and> same_aggregates s (snd (remove_worst_tile s c))
   \<and> (case remove_excessive_tile s of Inl e \<Rightarrow> True | Inr (t', s') \<Rightarrow> same_aggregates s s')"
  by (auto simp: Slice_current add_def update_values_current remove_best_same remove_worst_same
           dest: remove_excessive_same split: sum.splits)

text \<open>
  The claim as stated fails for a removal: a slice of two red and three blue tiles has the
  absolute value 8; after \<open>remove_best_tile\<close> the remaining tiles sum to 5 and the
  aggregate is still 8.
\<close>

theorem remove_best_tile_stale:
  "\<not> aggregates_current
        (snd (remove_best_tile (Slice [red 1, red 2, blue 3 2 1, blue 4 1 1, blue 5 1 2]) ''blue''))
   \<and> slice_absolute_value
        (snd (remove_best_tile (Slice [red 1, red 2, blue 3 2 1, blue 4 1 1, blue 5 1 2]) ''blue'')) = 8
   \<and> sum_list (map tile_absolute_value (tiles
        (snd (remove_best_tile (Slice [red 1, red 2, blue 3 2 1, blue 4 1 1, blue 5 1 2]) ''blue'')))) = 5"
  by (simp add: aggregates_current_def remove_best_tile_def sort_desc_def Slice_fields
        blue_fields red_fields split: prod.splits)

section \<open>Properties of the balance check\<close>








section \<open>Properties of the swap between the best and the worst slice\<close>




lemma mset_sort_desc [simp]: "mset (sort_desc f xs) = mset xs"
  by (simp add: sort_desc_def)

lemma set_sort_desc [simp]: "set (sort_desc f xs) = set xs"
  by (simp add: sort_desc_def)

lemma length_sort_desc [simp]: "length (sort_desc f xs) = length xs"
  by (simp add: sort_desc_def)















text \<open>The swap on the example slices: tile 3 and tile 10 change places.\<close>

lemma rebalance_best_worst_example:
  "(case rebalance_best_worst [strong_slice, weak_slice] of
      Inl e \<Rightarrow> [] | Inr ss' \<Rightarrow> map (\<lambda>s. (tiles s, slice_absolute_value s)) ss')
   = [([red 6, red 7, blue 8 1 1, blue 9 1 1, blue 3 3 3], 10),
      ([blue 4 2 2, blue 5 1 1, red 1, red 2, blue 10 1 0], 7)]"
  by (simp add: rebalance_best_worst_def example_slices remove_best_tile_def
        remove_worst_tile_def sort_desc_def add_def update_values_def update_loop_fields
        blue_fields red_fields)

section \<open>Properties of the random source\<close>

lemma randbelow_less: "0 < n \<Longrightarrow> fst (randbelow n g) < n"
  by (simp add: randbelow_def split: list.splits)

lemma shuffle_loop_mset:
  "i < length xs \<Longrightarrow> mset (fst (shuffle_loop i xs g)) = mset xs"
proof (induction i arbitrary: xs g)
  case 0
  then show ?case by simp
next
  case (Suc i)
  obtain j g' where rb: "randbelow (Suc i + 1) g = (j, g')"
    by (cases "randbelow (Suc i + 1) g")
  have "j < Suc i + 1"
    using randbelow_less [of "Suc i + 1" g] rb by simp
  with Suc.prems have j: "j < length xs" by simp
  let ?ys = "xs[Suc i := xs ! j, j := xs ! Suc i]"
  have "mset ?ys = mset xs"
    using Suc.prems j by (simp add: mset_swap)
  moreover have "mset (fst (shuffle_loop i ?ys g')) = mset ?ys"
    using Suc.prems by (intro Suc.IH) simp
  ultimately show ?case
    using rb by simp
qed

lemma shuffle_mset [simp]: "mset (fst (shuffle xs g)) = mset xs"
proof (cases xs)
  case Nil
  then show ?thesis by (simp add: shuffle_def)
next
  case (Cons a list)
  then show ?thesis by (simp add: shuffle_def shuffle_loop_mset)
qed

lemma shuffle_set [simp]: "set (fst (shuffle xs g)) = set xs"
  using shuffle_mset [of xs g] by (metis set_mset_mset)

lemma shuffle_length [simp]: "length (fst (shuffle xs g)) = length xs"
  using shuffle_mset [of xs g] by (metis size_mset)

section \<open>Properties of drawing the pool and building the slices\<close>

lemma draw_loop_no_unsupported:
  assumes "draw_loop ts = Some y"
  shows "y \<noteq> Inl NotImplementedError"
  by (rule draw_loop.raw_induct [where P = "\<lambda>ts y. y \<noteq> Inl NotImplementedError", OF _ assms])
     (auto split: list.splits if_splits)

lemma draw_loop_rotates:
  assumes "\<forall>x\<in>set pre. color x = ''red''" and "color t \<noteq> ''red''"
  shows "draw_loop (pre @ t # post) = Some (Inr (post @ pre))"
  using assms
proof (induction pre arbitrary: post)
  case Nil
  then show ?case by (subst draw_loop.simps) simp
next
  case (Cons a pre)
  have "draw_loop ((a # pre) @ t # post) = draw_loop (pre @ t # (post @ [a]))"
    using Cons.prems by (subst draw_loop.simps) simp
  also have "\<dots> = Some (Inr ((post @ [a]) @ pre))"
    using Cons.prems by (intro Cons.IH) simp_all
  finally show ?case by simp
qed

text \<open>
  With a tile that is not red in the list, the loop returns: exactly one tile, the first
  one after the shuffle that is not red, is excluded.
\<close>

lemma draw_all_tiles_returns:
  assumes "\<exists>t\<in>set ts. color t \<noteq> ''red''"
  shows "\<exists>pool g1 t. draw_all_tiles ts 6 g = Some (Inr (pool, g1))
           \<and> color t \<noteq> ''red'' \<and> mset ts = add_mset t (mset pool)"
proof -
  obtain ts1 g1 where sh: "shuffle ts g = (ts1, g1)"
    by (cases "shuffle ts g")
  have perm: "mset ts1 = mset ts" and "set ts1 = set ts"
    using shuffle_mset [of ts g] shuffle_set [of ts g] by (simp_all add: sh)
  with assms have "\<exists>t\<in>set ts1. color t \<noteq> ''red''"
    by simp
  from split_list_first_prop [OF this] obtain pre t post where
    d: "ts1 = pre @ t # post" "color t \<noteq> ''red''" "\<forall>x\<in>set pre. \<not> color x \<noteq> ''red''"
    by blast
  have "draw_loop ts1 = Some (Inr (post @ pre))"
    unfolding d(1) using d(2,3) by (intro draw_loop_rotates) simp_all
  then have "draw_all_tiles ts 6 g = Some (Inr (post @ pre, g1))"
    by (simp add: draw_all_tiles_def sh)
  moreover have "mset ts = add_mset t (mset (post @ pre))"
    using perm [symmetric] d(1) by simp
  ultimately show ?thesis using d(2) by blast
qed

lemma pop_n_no_unsupported: "pop_n n src acc \<noteq> Inl NotImplementedError"
  by (induction n arbitrary: src acc) (auto split: list.splits)

lemma slices_loop_no_unsupported: "slices_loop n reds blues acc \<noteq> Inl NotImplementedError"
proof (induction n arbitrary: reds blues acc)
  case 0
  then show ?case by simp
next
  case (Suc n)
  show ?case
    using pop_n_no_unsupported [of 2 reds "[]"] Suc.IH
    by (auto split: sum.splits prod.splits simp: pop_n_no_unsupported)
qed

text \<open>
  C8. \<open>draw_all_tiles\<close> raises \<^verbatim>\<open>NotImplementedError\<close> exactly when its player count is
  not 6, and \<open>generate_slices\<close> raises it exactly when \<open>k\<close> is not 6; for the argument 6
  neither raises it (whatever else happens: the draw loop may not return, an empty list
  raises \<^verbatim>\<open>IndexError\<close>).
\<close>

theorem unsupported_configuration:
  "(draw_all_tiles ts players g = Some (Inl NotImplementedError)) = (players \<noteq> 6)
   \<and> (generate_slices ts k g = Inl NotImplementedError) = (k \<noteq> 6)"
proof -
  have "draw_all_tiles ts 6 g \<noteq> Some (Inl NotImplementedError)"
    using draw_loop_no_unsupported
    by (auto simp: draw_all_tiles_def split: prod.splits option.splits sum.splits)
  moreover have "generate_slices ts 6 g \<noteq> Inl NotImplementedError"
    using slices_loop_no_unsupported
    by (auto simp: generate_slices_def split: prod.splits sum.splits)
  ultimately show ?thesis
    by (auto simp: draw_all_tiles_def generate_slices_def)
qed

lemma pop_n_take:
  "n \<le> length src \<Longrightarrow> pop_n n src acc = Inr (acc @ take n src, drop n src)"
  by (induction n arbitrary: src acc) (auto split: list.splits)

lemma slices_loop_builds:
  assumes "2 * n \<le> length reds" and "3 * n \<le> length blues"
  shows "\<exists>new. slices_loop n reds blues acc = Inr (acc @ new) \<and> length new = n
           \<and> (\<forall>s\<in>set new. \<exists>rs bs. tiles s = rs @ bs \<and> length rs = 2 \<and> length bs = 3
                  \<and> set rs \<subseteq> set reds \<and> set bs \<subseteq> set blues)
           \<and> all_tiles new = mset (take (2 * n) reds) + mset (take (3 * n) blues)"
  using assms
proof (induction n arbitrary: reds blues acc)
  case 0
  then show ?case by (simp add: all_tiles_def)
next
  case (Suc n)
  let ?st = "take 2 reds @ take 3 blues"
  have p2: "pop_n 2 reds [] = Inr (take 2 reds, drop 2 reds)"
    using Suc.prems by (subst pop_n_take) simp_all
  have p3: "pop_n 3 blues (take 2 reds) = Inr (?st, drop 3 blues)"
    using Suc.prems by (subst pop_n_take) simp_all
  have step: "slices_loop (Suc n) reds blues acc
                = slices_loop n (drop 2 reds) (drop 3 blues) (acc @ [Slice ?st])"
    by (simp add: p2 p3)
  have "2 * n \<le> length (drop 2 reds)" "3 * n \<le> length (drop 3 blues)"
    using Suc.prems by simp_all
  from Suc.IH [OF this, of "acc @ [Slice ?st]"] obtain new where
    new: "slices_loop n (drop 2 reds) (drop 3 blues) (acc @ [Slice ?st]) = Inr ((acc @ [Slice ?st]) @ new)"
      "length new = n"
      "\<forall>s\<in>set new. \<exists>rs bs. tiles s = rs @ bs \<and> length rs = 2 \<and> length bs = 3
                  \<and> set rs \<subseteq> set (drop 2 reds) \<and> set bs \<subseteq> set (drop 3 blues)"
      "all_tiles new = mset (take (2 * n) (drop 2 reds)) + mset (take (3 * n) (drop 3 blues))"
    by blast
  let ?new = "Slice ?st # new"
  have 1: "slices_loop (Suc n) reds blues acc = Inr (acc @ ?new)"
    using step new(1) by simp
  have 2: "length ?new = Suc n"
    using new(2) by simp
  have first: "\<exists>rs bs. tiles (Slice ?st) = rs @ bs \<and> length rs = 2 \<and> length bs = 3
                  \<and> set rs \<subseteq> set reds \<and> set bs \<subseteq> set blues"
    using Suc.prems
    by (intro exI [of _ "take 2 reds"] exI [of _ "take 3 blues"]) (auto dest: in_set_takeD)
  have rest: "\<forall>s\<in>set new. \<exists>rs bs. tiles s = rs @ bs \<and> length rs = 2 \<and> length bs = 3
                  \<and> set rs \<subseteq> set reds \<and> set bs \<subseteq> set blues"
  proof
    fix s assume "s \<in> set new"
    with new(3) obtain rs bs where "tiles s = rs @ bs" "length rs = 2" "length bs = 3"
      "set rs \<subseteq> set (drop 2 reds)" "set bs \<subseteq> set (drop 3 blues)"
      by blast
    moreover have "set (drop 2 reds) \<subseteq> set reds" "set (drop 3 blues) \<subseteq> set blues"
      by (auto dest: in_set_dropD)
    ultimately show "\<exists>rs bs. tiles s = rs @ bs \<and> length rs = 2 \<and> length bs = 3
                  \<and> set rs \<subseteq> set reds \<and> set bs \<subseteq> set blues"
      by blast
  qed
  have tk: "mset (take 2 reds) + mset (take (2 * n) (drop 2 reds)) = mset (take (2 * Suc n) reds)"
    "mset (take 3 blues) + mset (take (3 * n) (drop 3 blues)) = mset (take (3 * Suc n) blues)"
    by (simp_all add: take_add [symmetric] del: mset_append add: mset_append [symmetric])
  have 4: "all_tiles ?new = mset (take (2 * Suc n) reds) + mset (take (3 * Suc n) blues)"
    unfolding tk [symmetric] using new(4) by (simp add: all_tiles_def)
  show ?case
    using 1 2 first rest 4 by (intro exI [of _ ?new]) simp
qed


lemma two_colours_partition:
  assumes "\<forall>t\<in>set ts. color t = ''red'' \<or> color t = ''blue''"
  shows "mset ts = mset (filter (\<lambda>t. color t = ''red'') ts) + mset (filter (\<lambda>t. color t = ''blue'') ts)"
  using assms by (induction ts) auto

text \<open>
  C5. For every pool of exactly 12 red and 18 blue tiles (and no tile of another colour)
  and every state of the random source, \<open>generate_slices\<close> with \<open>k = 6\<close> returns six
  slices; each holds 5 tiles, 2 of them red and 3 blue; and the tiles of the six slices
  together are, as a multiset, exactly the tiles of the pool: none twice, none dropped.
\<close>

theorem generate_slices_partition:
  assumes reds: "length (filter (\<lambda>t. color t = ''red'') ts) = 12"
    and blues: "length (filter (\<lambda>t. color t = ''blue'') ts) = 18"
    and only: "\<forall>t\<in>set ts. color t = ''red'' \<or> color t = ''blue''"
  shows "\<exists>slices g'. generate_slices ts 6 g = Inr (slices, g') \<and> length slices = 6
     \<and> (\<forall>s\<in>set slices. length (tiles s) = 5
            \<and> length (filter (\<lambda>t. color t = ''red'') (tiles s)) = 2
            \<and> length (filter (\<lambda>t. color t = ''blue'') (tiles s)) = 3)
     \<and> all_tiles slices = mset ts"
proof -
  obtain red_tiles g1 where sh1: "shuffle (filter (\<lambda>t. color t = ''red'') ts) g = (red_tiles, g1)"
    by (cases "shuffle (filter (\<lambda>t. color t = ''red'') ts) g")
  obtain blue_tiles g2 where sh2: "shuffle (filter (\<lambda>t. color t = ''blue'') ts) g1 = (blue_tiles, g2)"
    by (cases "shuffle (filter (\<lambda>t. color t = ''blue'') ts) g1")
  have mr: "mset red_tiles = mset (filter (\<lambda>t. color t = ''red'') ts)"
    using shuffle_mset [of "filter (\<lambda>t. color t = ''red'') ts" g] sh1 by simp
  have mb: "mset blue_tiles = mset (filter (\<lambda>t. color t = ''blue'') ts)"
    using shuffle_mset [of "filter (\<lambda>t. color t = ''blue'') ts" g1] sh2 by simp
  have lr: "length red_tiles = 12"
    using shuffle_length [of "filter (\<lambda>t. color t = ''red'') ts" g] sh1 reds by simp
  have lb: "length blue_tiles = 18"
    using shuffle_length [of "filter (\<lambda>t. color t = ''blue'') ts" g1] sh2 blues by simp
  have cr: "\<forall>t\<in>set red_tiles. color t = ''red''"
    using shuffle_set [of "filter (\<lambda>t. color t = ''red'') ts" g] sh1 by auto
  have cb: "\<forall>t\<in>set blue_tiles. color t = ''blue''"
    using shuffle_set [of "filter (\<lambda>t. color t = ''blue'') ts" g1] sh2 by auto
  have "2 * 6 \<le> length red_tiles" "3 * 6 \<le> length blue_tiles"
    using lr lb by simp_all
  from slices_loop_builds [OF this, of "[]"] obtain slices where
    sl: "slices_loop 6 red_tiles blue_tiles [] = Inr slices" "length slices = 6"
      "\<forall>s\<in>set slices. \<exists>rs bs. tiles s = rs @ bs \<and> length rs = 2 \<and> length bs = 3
                  \<and> set rs \<subseteq> set red_tiles \<and> set bs \<subseteq> set blue_tiles"
      "all_tiles slices = mset (take (2 * 6) red_tiles) + mset (take (3 * 6) blue_tiles)"
    by auto
  have run: "generate_slices ts 6 g = Inr (slices, g2)"
    by (simp add: generate_slices_def sh1 sh2 sl(1))
  have each: "\<forall>s\<in>set slices. length (tiles s) = 5
            \<and> length (filter (\<lambda>t. color t = ''red'') (tiles s)) = 2
            \<and> length (filter (\<lambda>t. color t = ''blue'') (tiles s)) = 3"
  proof
    fix s assume "s \<in> set slices"
    with sl(3) obtain rs bs where d: "tiles s = rs @ bs" "length rs = 2" "length bs = 3"
      "set rs \<subseteq> set red_tiles" "set bs \<subseteq> set blue_tiles"
      by blast
    have "\<forall>t\<in>set rs. color t = ''red''" "\<forall>t\<in>set bs. color t = ''blue''"
      using d(4,5) cr cb by auto
    then have "filter (\<lambda>t. color t = ''red'') rs = rs" "filter (\<lambda>t. color t = ''red'') bs = []"
      "filter (\<lambda>t. color t = ''blue'') rs = []" "filter (\<lambda>t. color t = ''blue'') bs = bs"
      by (auto simp: filter_empty_conv)
    with d(1,2,3) show "length (tiles s) = 5
            \<and> length (filter (\<lambda>t. color t = ''red'') (tiles s)) = 2
            \<and> length (filter (\<lambda>t. color t = ''blue'') (tiles s)) = 3"
      by simp
  qed
  have "all_tiles slices = mset red_tiles + mset blue_tiles"
    using sl(4) lr lb by simp
  also have "\<dots> = mset ts"
    using two_colours_partition [OF only] mr mb by simp
  finally have total: "all_tiles slices = mset ts" .
  show ?thesis
    using run sl(2) each total by blast
qed

theorem generate_slices_partition_witness:
  "\<exists>slices g'. generate_slices example_pool 6 [3, 1, 4, 1, 5, 9, 2, 6] = Inr (slices, g')
     \<and> length slices = 6 \<and> all_tiles slices = mset example_pool"
proof -
  have "\<exists>slices g'. generate_slices example_pool 6 [3, 1, 4, 1, 5, 9, 2, 6] = Inr (slices, g')
     \<and> length slices = 6
     \<and> (\<forall>s\<in>set slices. length (tiles s) = 5
            \<and> length (filter (\<lambda>t. color t = ''red'') (tiles s)) = 2
            \<and> length (filter (\<lambda>t. color t = ''blue'') (tiles s)) = 3)
     \<and> all_tiles slices = mset example_pool"
    by (rule generate_slices_partition)
       (auto simp add: example_pool_def filter_map comp_def red_fields blue_fields)
  then show ?thesis by blast
qed

section \<open>Properties of the placement\<close>

lemma placed_simps [simp]:
  "placed [] = []" "placed (None # xs) = placed xs" "placed (Some t # xs) = t # placed xs"
  by (simp_all add: placed_def)








text \<open>
  Outside these hypotheses: a list of five red tiles has only the four slots 1, 3, 5, 6 to
  pop from (slot 0 joins at the first blue tile), and the fifth \<^verbatim>\<open>pop(0)\<close> raises.
\<close>

lemma place_tiles_all_red:
  "place_tiles (Slice [red 1, red 2, red 3, red 4, red 5]) [] = Inl IndexError"
  by (simp add: place_tiles_def shuffle_def randbelow_def red_fields has_anomalies_def numeral_eq_Suc)

section \<open>Properties of the sort by the ratio of resources and influence\<close>












section \<open>Determinism of the pipeline\<close>






end
